theory Spec2Isabelle
  imports Complex_Main
begin

section \<open>Python values used by weather.py\<close>

text \<open>
  The program is Python 2. A \<open>unicode\<close> object is a list of code units, a byte
  \<open>str\<close> is a list of 8-bit characters. Text coming from JSON and from
  \<open>resp.text\<close> is \<open>unicode\<close>; literals of the source without the \<open>u\<close> prefix and
  command-line arguments are \<open>str\<close>.
\<close>

type_synonym unicode = "nat list"

definition ustr :: "string \<Rightarrow> unicode" where
  "ustr s = map of_char s"

datatype pystr = Str string | Unicode unicode

fun chars :: "pystr \<Rightarrow> unicode" where
  "chars (Str s) = ustr s"
| "chars (Unicode cs) = cs"

text \<open>
  A finite double is \<open>m * 2 ^ e\<close> for integers \<open>m\<close> and \<open>e\<close>; the program only
  passes doubles on and truncates them with \<open>int()\<close>.
\<close>

datatype pyfloat = Float int int | Inf bool | NaN

text \<open>What \<open>response.json()\<close> can return.\<close>

datatype pyval =
    PNone
  | PBool bool
  | PInt int
  | PFloat pyfloat
  | PUnicode unicode
  | PList "pyval list"
  | PDict "(unicode \<times> pyval) list"

text \<open>The exceptions that the modelled code can raise.\<close>

datatype error =
    WeatherDataException string
  | IPAddressException string
  | KeyError
  | IndexError
  | TypeError
  | ValueError
  | OverflowError
  | AttributeError
  | UnicodeEncodeError
  | SystemExit int

section \<open>The \<open>re\<close> module, as far as the two patterns of the program need it\<close>

text \<open>
  A backtracking matcher: \<open>ms n r s\<close> lists, in the order in which Python's engine
  tries them, the remainders of \<open>s\<close> after each way of matching \<open>r\<close> at the front of
  \<open>s\<close>; \<open>n\<close> is the length of the whole subject, so that \<open>^\<close> can tell the start.
  No flag is set in the source, so \<open>\d\<close> is \<open>[0-9]\<close>, \<open>^\<close> matches at the start
  only, and \<open>$\<close> matches at the end and before a newline that ends the subject.
\<close>

datatype regex =
    Eps
  | Chr char
  | Rng char char
  | Digit
  | Seq regex regex
  | Alt regex regex
  | Opt regex
  | Plus regex
  | Bol
  | Eol

definition is_digit :: "nat \<Rightarrow> bool" where
  "is_digit c = (48 \<le> c \<and> c \<le> 57)"

fun ms :: "nat \<Rightarrow> regex \<Rightarrow> unicode \<Rightarrow> unicode list" where
  "ms n Eps s = [s]"
| "ms n (Chr c) s = (case s of [] \<Rightarrow> [] | x # xs \<Rightarrow> if x = of_char c then [xs] else [])"
| "ms n (Rng a b) s =
     (case s of [] \<Rightarrow> [] | x # xs \<Rightarrow> if of_char a \<le> x \<and> x \<le> of_char b then [xs] else [])"
| "ms n Digit s = (case s of [] \<Rightarrow> [] | x # xs \<Rightarrow> if is_digit x then [xs] else [])"
| "ms n (Seq a b) s = concat (map (ms n b) (ms n a s))"
| "ms n (Alt a b) s = ms n a s @ ms n b s"
| "ms n (Opt a) s = ms n a s @ [s]"
| "ms n (Plus a) s =
     concat (map (\<lambda>s'. (if length s' < length s then ms n (Plus a) s' else []) @ [s'])
               (ms n a s))"
| "ms n Bol s = (if length s = n then [s] else [])"
| "ms n Eol s = (if s = [] \<or> s = [10] then [s] else [])"

text \<open>\<open>r{k}\<close>: \<open>k\<close> copies of \<open>r\<close> in a row.\<close>

fun repeated :: "nat \<Rightarrow> regex \<Rightarrow> regex" where
  "repeated 0 r = Eps"
| "repeated (Suc k) r = Seq r (repeated k r)"

text \<open>\<open>pattern.match(s)\<close>: is there a match at the start of \<open>s\<close>.\<close>

definition re_match :: "regex \<Rightarrow> unicode \<Rightarrow> bool" where
  "re_match r s = (ms (length s) r s \<noteq> [])"

text \<open>
  \<open>pattern.search(s)\<close>: the text of the first match, at the leftmost position that
  has one; \<open>None\<close> when no position has.
\<close>

fun search_from :: "nat \<Rightarrow> regex \<Rightarrow> unicode \<Rightarrow> unicode option" where
  "search_from n r [] =
     (case ms n r [] of [] \<Rightarrow> None | s' # _ \<Rightarrow> Some [])"
| "search_from n r (x # xs) =
     (case ms n r (x # xs) of
        [] \<Rightarrow> search_from n r xs
      | s' # _ \<Rightarrow> Some (take (length (x # xs) - length s') (x # xs)))"

definition re_search :: "regex \<Rightarrow> unicode \<Rightarrow> unicode option" where
  "re_search r s = search_from (length s) r s"

section \<open>Decimal numerals\<close>

text \<open>How \<open>format\<close> writes an \<open>int\<close>.\<close>

fun digits_of :: "nat \<Rightarrow> unicode" where
  "digits_of n = (if n < 10 then [48 + n] else digits_of (n div 10) @ [48 + n mod 10])"

definition str_of_int :: "int \<Rightarrow> unicode" where
  "str_of_int i = (if i < 0 then 45 # digits_of (nat (- i)) else digits_of (nat i))"

text \<open>
  \<open>int(text)\<close> on a text of the form \<open>-?[0-9]+\<close>: its decimal value. Any other text is
  outside this part of the model of \<open>int\<close> and answered by \<open>None\<close>.
\<close>

definition decimal_value :: "unicode \<Rightarrow> nat" where
  "decimal_value ds = foldl (\<lambda>acc c. 10 * acc + (c - 48)) 0 ds"

definition all_digits :: "unicode \<Rightarrow> bool" where
  "all_digits ds = (ds \<noteq> [] \<and> list_all is_digit ds)"

definition int_of_decimal :: "unicode \<Rightarrow> int option" where
  "int_of_decimal s =
     (case s of
        [] \<Rightarrow> None
      | c # cs \<Rightarrow>
          if c = 45 then (if all_digits cs then Some (- int (decimal_value cs)) else None)
          else if all_digits s then Some (int (decimal_value s)) else None)"

section \<open>Color Selector: \<open>get_temperature_color\<close> (weather.py, lines 57-74)\<close>

text \<open>\<open>temperature_re = re.compile(r'(?P<temperature>-?\d+)')\<close>\<close>

definition temperature_re :: regex where
  "temperature_re = Seq (Opt (Chr CHR ''-'')) (Plus Digit)"

definition temp_color_map :: "(int \<times> string) list" where
  "temp_color_map = [(40, ''cyan''), (60, ''blue''), (80, ''yellow'')]"

text \<open>The \<open>for color in temp_color_map\<close> loop, with \<open>'red'\<close> after it.\<close>

fun pick_color :: "(int \<times> string) list \<Rightarrow> int \<Rightarrow> string" where
  "pick_color [] t = ''red''"
| "pick_color (color # rest) t = (if t \<le> fst color then snd color else pick_color rest t)"

definition get_temperature_color :: "unicode \<Rightarrow> error + string" where
  "get_temperature_color conditions =
     (case re_search temperature_re conditions of
        None \<Rightarrow> Inr ''white''
      | Some temperature \<Rightarrow>
          (case int_of_decimal temperature of
             None \<Rightarrow> Inl ValueError
           | Some t \<Rightarrow> Inr (pick_color temp_color_map t)))"

section \<open>Output Formatter: \<open>TextFormatter.output\<close> (lines 29-44)\<close>

text \<open>
  A format template is kept as its pieces: literal text and replacement fields
  \<open>{i}\<close>. A field whose index is not below the number of arguments raises
  \<open>IndexError\<close>.
\<close>

datatype 'a piece = Lit "'a list" | Field nat

fun format_pieces :: "'a piece list \<Rightarrow> 'a list list \<Rightarrow> error + 'a list" where
  "format_pieces [] args = Inr []"
| "format_pieces (Lit t # ps) args =
     (case format_pieces ps args of Inl e \<Rightarrow> Inl e | Inr rest \<Rightarrow> Inr (t @ rest))"
| "format_pieces (Field i # ps) args =
     (if i < length args
      then (case format_pieces ps args of Inl e \<Rightarrow> Inl e | Inr rest \<Rightarrow> Inr (args ! i @ rest))
      else Inl IndexError)"

text \<open>
  The values that reach a replacement field of the unicode template: an \<open>int\<close>,
  written in decimal, or a text, written as it is.
\<close>

datatype fval = FInt int | FText unicode

fun text_of :: "fval \<Rightarrow> unicode" where
  "text_of (FInt i) = str_of_int i"
| "text_of (FText t) = t"

text \<open>
  \<open>unicode.lower()\<close> maps every code unit on its own. On ASCII it shifts \<open>A\<close>..\<open>Z\<close>
  to \<open>a\<close>..\<open>z\<close>; above ASCII it follows the interpreter's character database, which
  is the parameter \<open>tbl\<close>.
\<close>

definition lower_unit :: "(nat \<Rightarrow> nat) \<Rightarrow> nat \<Rightarrow> nat" where
  "lower_unit tbl c = (if 65 \<le> c \<and> c \<le> 90 then c + 32 else if c < 128 then c else tbl c)"

definition unicode_lower :: "(nat \<Rightarrow> nat) \<Rightarrow> unicode \<Rightarrow> unicode" where
  "unicode_lower tbl s = map (lower_unit tbl) s"

text \<open>
  The \<open>context\<close> dict that \<open>now\<close> fills: \<open>temp\<close> is the result of \<open>int(...)\<close>,
  \<open>conditions\<close> is the JSON value as it was read, \<open>icon\<close> is what \<open>ascii_icon\<close>
  returned.
\<close>

record "context" =
  temp :: int
  conditions :: pyval
  icon :: fval

text \<open>
  \<open>u"Today it's {0}\u00B0 {1} and {2}".format(context['temp'], context['icon'],
  context['conditions'].lower())\<close>. Only a text has the method \<open>lower\<close>.
\<close>

definition TextFormatter_output :: "(nat \<Rightarrow> nat) \<Rightarrow> context \<Rightarrow> error + unicode" where
  "TextFormatter_output tbl ctx =
     (case conditions ctx of
        PUnicode c \<Rightarrow>
          format_pieces
            [Lit (ustr ''Today it's ''), Field 0, Lit [0xB0, 32], Field 1,
             Lit (ustr '' and ''), Field 2]
            [str_of_int (temp ctx), text_of (icon ctx), unicode_lower tbl c]
      | _ \<Rightarrow> Inl AttributeError)"

section \<open>Weather Provider: \<open>OpenWeatherMap\<close> (lines 77-135)\<close>

definition SUN :: unicode where "SUN = [0x2600]"
definition CLOUDS :: unicode where "CLOUDS = [0x2601]"
definition RAIN :: unicode where "RAIN = [0x2602]"
definition SNOW :: unicode where "SNOW = [0x2603]"

text \<open>The items of the \<open>defaultdict(int, {...})\<close> of \<open>ascii_icon\<close>.\<close>

definition codes :: "(unicode \<times> unicode) list" where
  "codes =
     [(ustr ''01d'', SUN), (ustr ''01n'', SUN),
      (ustr ''02d'', CLOUDS), (ustr ''02n'', CLOUDS),
      (ustr ''03d'', CLOUDS), (ustr ''03n'', CLOUDS),
      (ustr ''04d'', CLOUDS), (ustr ''04n'', CLOUDS),
      (ustr ''09d'', RAIN), (ustr ''09n'', RAIN),
      (ustr ''10d'', RAIN), (ustr ''10n'', RAIN),
      (ustr ''11d'', RAIN), (ustr ''11n'', RAIN),
      (ustr ''13d'', SNOW), (ustr ''13n'', SNOW)]"

text \<open>
  \<open>codes[code]\<close>: the table's value, or for a missing key the default of the factory
  \<open>int\<close>, which is \<open>0\<close>. A list or a dict is not hashable and raises \<open>TypeError\<close>; any
  other value that is not a text is a key that the table does not have.
\<close>

definition OpenWeatherMap_ascii_icon :: "pyval \<Rightarrow> error + fval" where
  "OpenWeatherMap_ascii_icon code =
     (case code of
        PUnicode c \<Rightarrow> Inr (case map_of codes c of Some symbol \<Rightarrow> FText symbol | None \<Rightarrow> FInt 0)
      | PList _ \<Rightarrow> Inl TypeError
      | PDict _ \<Rightarrow> Inl TypeError
      | _ \<Rightarrow> Inr (FInt 0))"

text \<open>
  Subscripts. \<open>v['key']\<close> needs a dict; a dict is the list of its items, each key once.
  \<open>v[0]\<close> takes the first element of a list or of a text; a dict read from JSON has
  text keys only, so \<open>0\<close> is a missing key.
\<close>

fun getitem_key :: "pyval \<Rightarrow> unicode \<Rightarrow> error + pyval" where
  "getitem_key (PDict items) k = (case map_of items k of None \<Rightarrow> Inl KeyError | Some v \<Rightarrow> Inr v)"
| "getitem_key _ k = Inl TypeError"

fun getitem_0 :: "pyval \<Rightarrow> error + pyval" where
  "getitem_0 (PDict items) = Inl KeyError"
| "getitem_0 (PList []) = Inl IndexError"
| "getitem_0 (PList (x # xs)) = Inr x"
| "getitem_0 (PUnicode []) = Inl IndexError"
| "getitem_0 (PUnicode (c # cs)) = Inr (PUnicode [c])"
| "getitem_0 _ = Inl TypeError"

text \<open>
  \<open>int(v)\<close>. A double is truncated towards zero. A text of the form \<open>-?[0-9]+\<close> has
  its decimal value; for every other text the answer of the interpreter is the
  parameter \<open>conv\<close> (\<open>None\<close> for \<open>ValueError\<close>).
\<close>

definition float_trunc :: "int \<Rightarrow> int \<Rightarrow> int" where
  "float_trunc m e =
     (if 0 \<le> e then m * 2 ^ nat e
      else if 0 \<le> m then m div 2 ^ nat (- e)
      else - ((- m) div 2 ^ nat (- e)))"

fun py_int :: "(unicode \<Rightarrow> int option) \<Rightarrow> pyval \<Rightarrow> error + int" where
  "py_int conv (PInt i) = Inr i"
| "py_int conv (PBool b) = Inr (if b then 1 else 0)"
| "py_int conv (PFloat (Float m e)) = Inr (float_trunc m e)"
| "py_int conv (PFloat (Inf b)) = Inl OverflowError"
| "py_int conv (PFloat NaN) = Inl ValueError"
| "py_int conv (PUnicode s) =
     (case int_of_decimal s of
        Some i \<Rightarrow> Inr i
      | None \<Rightarrow> (case conv s of Some i \<Rightarrow> Inr i | None \<Rightarrow> Inl ValueError))"
| "py_int conv PNone = Inl TypeError"
| "py_int conv (PList xs) = Inl TypeError"
| "py_int conv (PDict items) = Inl TypeError"

definition bind_err :: "error + 'a \<Rightarrow> ('a \<Rightarrow> error + 'b) \<Rightarrow> error + 'b" where
  "bind_err x f = (case x of Inl e \<Rightarrow> Inl e | Inr v \<Rightarrow> f v)"

text \<open>The three assignments inside the second \<open>try\<close> of \<open>now\<close>, in their order.\<close>

definition read_context :: "(unicode \<Rightarrow> int option) \<Rightarrow> pyval \<Rightarrow> error + context" where
  "read_context conv weather =
     bind_err (bind_err (bind_err (getitem_key weather (ustr ''main''))
                 (\<lambda>m. getitem_key m (ustr ''temp''))) (py_int conv))
       (\<lambda>t.
     bind_err (bind_err (bind_err (getitem_key weather (ustr ''weather'')) getitem_0)
                 (\<lambda>w. getitem_key w (ustr ''description'')))
       (\<lambda>c.
     bind_err (bind_err (bind_err (bind_err (getitem_key weather (ustr ''weather'')) getitem_0)
                 (\<lambda>w. getitem_key w (ustr ''icon''))) OpenWeatherMap_ascii_icon)
       (\<lambda>i. Inr \<lparr>temp = t, conditions = c, icon = i\<rparr>)))"

definition MAPPING_UNITS :: "(string \<times> string) list" where
  "MAPPING_UNITS = [(''fahrenheit'', ''imperial''), (''celsius'', ''metric'')]"

record payload =
  p_lat :: pyfloat
  p_lon :: pyfloat
  p_units :: string

definition now_payload :: "pyfloat \<Rightarrow> pyfloat \<Rightarrow> string \<Rightarrow> error + payload" where
  "now_payload la lo un =
     (case map_of MAPPING_UNITS un of
        None \<Rightarrow> Inl KeyError
      | Some v \<Rightarrow> Inr \<lparr>p_lat = la, p_lon = lo, p_units = v\<rparr>)"

text \<open>The HTTP requests that the program sends, in the order of sending.\<close>

datatype request = GetPublicIP string | GetWeather string payload

definition weather_url :: string where
  "weather_url = ''http://api.openweathermap.org/data/2.5/weather''"

text \<open>
  \<open>now\<close>: \<open>formatter\<close> is the injected formatter's \<open>output\<close>; \<open>api\<close> gives, for the
  query parameters, what \<open>response.json()\<close> returns, \<open>None\<close> when it raises
  \<open>ValueError\<close>. The result comes with the list of requests sent so far, extended.
\<close>

definition OpenWeatherMap_now ::
  "(context \<Rightarrow> error + unicode) \<Rightarrow> (unicode \<Rightarrow> int option) \<Rightarrow> (payload \<Rightarrow> pyval option) \<Rightarrow>
   pyfloat \<Rightarrow> pyfloat \<Rightarrow> string \<Rightarrow> request list \<Rightarrow> (error + unicode) \<times> request list" where
  "OpenWeatherMap_now formatter conv api la lo un sent =
     (case now_payload la lo un of
        Inl e \<Rightarrow> (Inl e, sent)
      | Inr pl \<Rightarrow>
          (case api pl of
             None \<Rightarrow> Inl (WeatherDataException ''Incorrect json response'')
           | Some weather \<Rightarrow>
               (case read_context conv weather of
                  Inl KeyError \<Rightarrow>
                    Inl (WeatherDataException ''No conditions reported for your search'')
                | Inl e \<Rightarrow> Inl e
                | Inr ctx \<Rightarrow> formatter ctx),
           sent @ [GetWeather weather_url pl]))"

section \<open>IP Validator and Public IP Resolver: \<open>PublicIPAddress\<close> (lines 25-26, 138-161)\<close>

text \<open>
  \<open>IPV4_RE = re.compile(r'^(25[0-5]|2[0-4]\d|[0-1]?\d?\d)(\.(25[0-5]|2[0-4]\d|'
  r'[0-1]?\d?\d)){3}$')\<close>
\<close>

definition octet :: regex where
  "octet =
     Alt (Seq (Chr CHR ''2'') (Seq (Chr CHR ''5'') (Rng CHR ''0'' CHR ''5'')))
    (Alt (Seq (Chr CHR ''2'') (Seq (Rng CHR ''0'' CHR ''4'') Digit))
         (Seq (Opt (Rng CHR ''0'' CHR ''1'')) (Seq (Opt Digit) Digit)))"

definition IPV4_RE :: regex where
  "IPV4_RE = Seq Bol (Seq octet (Seq (repeated 3 (Seq (Chr CHR ''.'') octet)) Eol))"

text \<open>
  An argument of the byte template \<open>'...{}'.format(x)\<close>: a \<open>str\<close> goes in as it is, a
  \<open>unicode\<close> is encoded with the ASCII codec, which raises on a code unit above 127.
\<close>

definition str_arg :: "pystr \<Rightarrow> error + string" where
  "str_arg x =
     (case x of
        Str s \<Rightarrow> Inr s
      | Unicode cs \<Rightarrow>
          if list_all (\<lambda>c. c < 128) cs then Inr (map char_of cs) else Inl UnicodeEncodeError)"

definition PublicIPAddress_validate :: "pystr \<Rightarrow> error + bool" where
  "PublicIPAddress_validate ip_address =
     (if \<not> re_match IPV4_RE (chars ip_address)
      then bind_err (str_arg ip_address) (\<lambda>a.
           bind_err (format_pieces [Lit ''Incorrect ip v4 address '', Field 0] [a]) (\<lambda>msg.
           Inl (IPAddressException msg)))
      else Inr True)"

definition public_ip_url :: string where
  "public_ip_url = ''http://ip.42.pl/raw''"

text \<open>
  \<open>resolve\<close>: \<open>text\<close> is \<open>resp.text\<close> of the request to the service. When \<open>validate\<close>
  returns a false value the method falls off its end and returns \<open>None\<close>.
\<close>

definition PublicIPAddress_resolve ::
  "unicode \<Rightarrow> request list \<Rightarrow> (error + pystr option) \<times> request list" where
  "PublicIPAddress_resolve text sent =
     (case PublicIPAddress_validate (Unicode text) of
        Inl e \<Rightarrow> Inl e
      | Inr ok \<Rightarrow> Inr (if ok then Some (Unicode text) else None),
      sent @ [GetPublicIP public_ip_url])"

section \<open>CLI Argument Parser: \<open>Arguments\<close> (lines 164-193)\<close>

text \<open>
  The command line as \<open>argparse\<close> has split it: the value given to \<open>-u/--units\<close>
  and the value given to \<open>-ip/--ip-address\<close>, \<open>None\<close> for an option that is not
  there. What the source configures is the choices, the default and the two keys of
  the result. A value outside the choices makes \<open>argparse\<close> exit with status 2.
\<close>

record cli =
  units_flag :: "string option"
  ip_flag :: "string option"

record args =
  arg_ip :: "string option"
  arg_units :: string

definition units_choices :: "string list" where
  "units_choices = [''celsius'', ''fahrenheit'']"

definition Arguments_parse :: "cli \<Rightarrow> error + args" where
  "Arguments_parse c =
     (case units_flag c of
        None \<Rightarrow> Inr \<lparr>arg_ip = ip_flag c, arg_units = units_choices ! 1\<rparr>
      | Some un \<Rightarrow>
          if un \<in> set units_choices then Inr \<lparr>arg_ip = ip_flag c, arg_units = un\<rparr>
          else Inl (SystemExit 2))"

section \<open>Orchestrator: \<open>Weather.run\<close> (lines 196-236)\<close>

text \<open>
  What one run meets outside the program: the command line, the body that the
  public-IP service answers, the geolocation database and the weather API.
  A match of the database exposes \<open>location\<close>, a pair of doubles.
\<close>

record geo_match =
  location :: "pyfloat \<times> pyfloat"

record env =
  cli_args :: cli
  public_ip_text :: unicode
  geolite2_lookup :: "pystr option \<Rightarrow> geo_match option"
  weather_api :: "payload \<Rightarrow> pyval option"

text \<open>
  What one run does: the requests sent, the lines that \<open>puts\<close> writes to standard
  output (each with the name of its color), the lines that the program's \<open>print\<close>
  writes to standard error, and how the run ends: \<open>Inr ()\<close> when \<open>run\<close> returns,
  \<open>Inl e\<close> when the exception \<open>e\<close> leaves it.
\<close>

record trace =
  requests :: "request list"
  stdout :: "(string \<times> unicode) list"
  stderr :: "string list"
  status :: "error + unit"

definition exit_code :: "trace \<Rightarrow> int" where
  "exit_code t = (case status t of Inr u \<Rightarrow> 0 | Inl (SystemExit n) \<Rightarrow> n | Inl e \<Rightarrow> 1)"

definition raised :: "error \<Rightarrow> request list \<Rightarrow> trace" where
  "raised e sent = \<lparr>requests = sent, stdout = [], stderr = [], status = Inl e\<rparr>"

text \<open>\<open>not args['ip']\<close>: \<open>None\<close> and the empty text are false.\<close>

definition falsy :: "string option \<Rightarrow> bool" where
  "falsy x = (case x of None \<Rightarrow> True | Some s \<Rightarrow> s = [])"

definition resolve_ip :: "env \<Rightarrow> args \<Rightarrow> (error + pystr option) \<times> request list" where
  "resolve_ip w a =
     (if falsy (arg_ip a) then PublicIPAddress_resolve (public_ip_text w) []
      else (case PublicIPAddress_validate (Str (the (arg_ip a))) of
              Inl e \<Rightarrow> (Inl e, [])
            | Inr ok \<Rightarrow> (Inr (Some (Str (the (arg_ip a)))), [])))"

definition Weather_run :: "(nat \<Rightarrow> nat) \<Rightarrow> (unicode \<Rightarrow> int option) \<Rightarrow> env \<Rightarrow> trace" where
  "Weather_run tbl conv w =
     (case Arguments_parse (cli_args w) of
        Inl e \<Rightarrow> raised e []
      | Inr a \<Rightarrow>
          (case resolve_ip w a of
             (Inl e, sent) \<Rightarrow> raised e sent
           | (Inr ip_address, sent) \<Rightarrow>
               (case geolite2_lookup w ip_address of
                  None \<Rightarrow> raised (IPAddressException ''Incorrect ip address'') sent
                | Some match \<Rightarrow>
                    (case OpenWeatherMap_now (TextFormatter_output tbl) conv (weather_api w)
                            (fst (location match)) (snd (location match)) (arg_units a) sent of
                       (Inl (WeatherDataException m), sent') \<Rightarrow>
                         (case format_pieces
                                 [Lit ''Something bad happens('', Field 0,
                                  Lit ''), Please try again later.''] [m] of
                            Inl e \<Rightarrow> raised e sent'
                          | Inr line \<Rightarrow>
                              \<lparr>requests = sent', stdout = [], stderr = [line],
                               status = Inl (SystemExit 1)\<rparr>)
                     | (Inl e, sent') \<Rightarrow> raised e sent'
                     | (Inr formatted, sent') \<Rightarrow>
                         (case get_temperature_color formatted of
                            Inl e \<Rightarrow> raised e sent'
                          | Inr color \<Rightarrow>
                              \<lparr>requests = sent', stdout = [(color, formatted)], stderr = [],
                               status = Inr ()\<rparr>)))))"

section \<open>The specification's wording\<close>

text \<open>
  The first signed integer substring of a text, as the specification of the Color
  Selector words it: the first maximal run of decimal digits, negative when a minus
  sign stands directly before it.
\<close>

definition first_signed_integer :: "unicode \<Rightarrow> int option" where
  "first_signed_integer s =
     (let pre = takeWhile (\<lambda>c. \<not> is_digit c) s;
          ds = takeWhile is_digit (dropWhile (\<lambda>c. \<not> is_digit c) s)
      in if ds = [] then None
         else Some (if pre \<noteq> [] \<and> last pre = 45 then - int (decimal_value ds)
                    else int (decimal_value ds)))"

text \<open>The ascending thresholds of the specification.\<close>

definition color_bands :: "int \<Rightarrow> string" where
  "color_bands t =
     (if t \<le> 40 then ''cyan'' else if t \<le> 60 then ''blue''
      else if t \<le> 80 then ''yellow'' else ''red'')"

text \<open>Changing the case of the input: every ASCII small letter becomes its capital.\<close>

definition ascii_upper :: "nat \<Rightarrow> nat" where
  "ascii_upper c = (if 97 \<le> c \<and> c \<le> 122 then c - 32 else c)"

text \<open>The groups of condition codes that the specification of the icon mapping names.\<close>

definition clear_codes :: "unicode list" where
  "clear_codes = map ustr [''01d'', ''01n'']"

definition cloud_codes :: "unicode list" where
  "cloud_codes = map ustr [''02d'', ''02n'', ''03d'', ''03n'', ''04d'', ''04n'']"

definition rain_codes :: "unicode list" where
  "rain_codes = map ustr [''09d'', ''09n'', ''10d'', ''10n'', ''11d'', ''11n'']"

definition snow_codes :: "unicode list" where
  "snow_codes = map ustr [''13d'', ''13n'']"

text \<open>
  The dotted quad of the specification: four octets, each one to three decimal
  digits with a value of at most 255, separated by dots.
\<close>

definition octet_text :: "unicode \<Rightarrow> bool" where
  "octet_text a = (all_digits a \<and> length a \<le> 3 \<and> decimal_value a \<le> 255)"

definition dotted_quad :: "unicode \<Rightarrow> bool" where
  "dotted_quad s =
     (\<exists>a b c d. octet_text a \<and> octet_text b \<and> octet_text c \<and> octet_text d \<and>
        s = a @ 46 # b @ 46 # c @ 46 # d)"

section \<open>Example runs\<close>

text \<open>
  The end-to-end example of the specification: geolocation answers (40.0, -75.0),
  the weather API answers temperature 55, icon \<open>10d\<close>, description \<open>light rain\<close>.
\<close>

definition no_conv :: "unicode \<Rightarrow> int option" where
  "no_conv s = None"

definition mock_weather :: pyval where
  "mock_weather =
     PDict [(ustr ''weather'',
               PList [PDict [(ustr ''description'', PUnicode (ustr ''light rain'')),
                             (ustr ''icon'', PUnicode (ustr ''10d''))]]),
            (ustr ''main'', PDict [(ustr ''temp'', PInt 55)])]"

definition mock_env :: env where
  "mock_env =
     \<lparr>cli_args = \<lparr>units_flag = Some ''fahrenheit'', ip_flag = Some ''8.8.8.8''\<rparr>,
      public_ip_text = [],
      geolite2_lookup = (\<lambda>ip. Some \<lparr>location = (Float 40 0, Float (- 75) 0)\<rparr>),
      weather_api = (\<lambda>p. Some mock_weather)\<rparr>"

text \<open>A body with \<open>main.temp\<close> and an empty \<open>weather\<close> array.\<close>

definition empty_weather :: pyval where
  "empty_weather =
     PDict [(ustr ''main'', PDict [(ustr ''temp'', PInt 55)]), (ustr ''weather'', PList [])]"

definition empty_weather_api :: "payload \<Rightarrow> pyval option" where
  "empty_weather_api p = Some empty_weather"

definition empty_weather_env :: env where
  "empty_weather_env = mock_env\<lparr>weather_api := empty_weather_api\<rparr>"

text \<open>The weather API answers a body that is not JSON.\<close>

definition bad_json_env :: env where
  "bad_json_env = mock_env\<lparr>weather_api := (\<lambda>p. None)\<rparr>"

text \<open>No address on the command line, and the database has no match.\<close>

definition no_match_env :: env where
  "no_match_env =
     \<lparr>cli_args = \<lparr>units_flag = None, ip_flag = None\<rparr>,
      public_ip_text = ustr ''10.0.0.1'',
      geolite2_lookup = (\<lambda>ip. None),
      weather_api = (\<lambda>p. Some mock_weather)\<rparr>"

section \<open>The temperature pattern finds the first signed integer\<close>

lemma ms_plus_digit_Cons:
  "ms n (Plus Digit) (x # xs) = (if is_digit x then ms n (Plus Digit) xs @ [xs] else [])"
  by simp

lemma ms_plus_digit_Nil: "ms n (Plus Digit) [] = []"
  by simp

lemma ms_plus_digit_hd:
  "ms n (Plus Digit) (x # xs) =
     (if is_digit x then dropWhile is_digit xs # tl (ms n (Plus Digit) (x # xs)) else [])"
proof (induction xs arbitrary: x)
  case Nil
  show ?case by simp
next
  case (Cons y ys)
  show ?case
    using Cons.IH [of y] by (simp del: ms.simps add: ms_plus_digit_Cons)
qed

lemma plus_digit_some:
  "is_digit x \<Longrightarrow> \<exists>rest. ms n (Plus Digit) (x # xs) = dropWhile is_digit xs # rest"
  using ms_plus_digit_hd [of n x xs] by auto

lemma plus_digit_none: "s = [] \<or> \<not> is_digit (hd s) \<Longrightarrow> ms n (Plus Digit) s = []"
  by (cases s) (auto simp: ms_plus_digit_Nil ms_plus_digit_Cons simp del: ms.simps)

lemma take_length_dropWhile:
  "take (length s - length (dropWhile P s)) s = takeWhile P s"
  by (induction s) (auto simp: Suc_diff_le length_dropWhile_le)

lemma ms_temperature_re:
  "ms n temperature_re s =
     (case s of
        [] \<Rightarrow> []
      | x # xs \<Rightarrow> (if x = 45 then ms n (Plus Digit) xs else []) @ ms n (Plus Digit) s)"
  by (cases s) (simp_all add: temperature_re_def ms_plus_digit_Nil del: ms.simps(8))

lemma not_digit_45: "\<not> is_digit 45"
  by (simp add: is_digit_def)

lemma all_digits_takeWhile:
  "is_digit x \<Longrightarrow> all_digits (takeWhile is_digit (x # xs))"
  by (simp add: all_digits_def list_all_iff) (meson set_takeWhileD)

lemma int_of_decimal_digits:
  "is_digit x \<Longrightarrow>
   int_of_decimal (takeWhile is_digit (x # xs)) =
     Some (int (decimal_value (takeWhile is_digit (x # xs))))"
  using all_digits_takeWhile [of x xs] not_digit_45
  by (auto simp: int_of_decimal_def)

lemma int_of_decimal_minus:
  "is_digit x \<Longrightarrow>
   int_of_decimal (45 # takeWhile is_digit (x # xs)) =
     Some (- int (decimal_value (takeWhile is_digit (x # xs))))"
  using all_digits_takeWhile [of x xs]
  by (simp add: int_of_decimal_def)

lemma pick_color_bands: "pick_color temp_color_map t = color_bands t"
  by (simp add: temp_color_map_def color_bands_def)

lemma search_step:
  "search_from n temperature_re (x # xs) =
     (if is_digit x then Some (takeWhile is_digit (x # xs))
      else if x = 45 \<and> xs \<noteq> [] \<and> is_digit (hd xs) then Some (45 # takeWhile is_digit xs)
      else search_from n temperature_re xs)"
proof -
  consider (digit) "is_digit x"
    | (minus) "\<not> is_digit x" "x = 45" "xs \<noteq> []" "is_digit (hd xs)"
    | (other) "\<not> is_digit x" "\<not> (x = 45 \<and> xs \<noteq> [] \<and> is_digit (hd xs))"
    by blast
  then show ?thesis
  proof cases
    case digit
    then have x: "x \<noteq> 45" using not_digit_45 by auto
    obtain rest where r: "ms n (Plus Digit) (x # xs) = dropWhile is_digit xs # rest"
      using plus_digit_some [OF digit] by blast
    have "ms n temperature_re (x # xs) = dropWhile is_digit xs # rest"
      using x r by (simp add: ms_temperature_re del: ms.simps)
    moreover have "take (length (x # xs) - length (dropWhile is_digit xs)) (x # xs)
        = takeWhile is_digit (x # xs)"
      using take_length_dropWhile [of "x # xs" is_digit] digit by simp
    ultimately show ?thesis using digit by (simp del: ms.simps)
  next
    case minus
    then obtain y ys where xs: "xs = y # ys" and y: "is_digit y" by (cases xs) auto
    obtain rest where r: "ms n (Plus Digit) (y # ys) = dropWhile is_digit ys # rest"
      using plus_digit_some [OF y] by blast
    have "ms n temperature_re (x # xs) = dropWhile is_digit ys # rest"
      using minus r xs plus_digit_none [of "x # xs" n]
      by (simp add: ms_temperature_re del: ms.simps)
    moreover have "take (length (x # xs) - length (dropWhile is_digit ys)) (x # xs)
        = 45 # takeWhile is_digit xs"
      using take_length_dropWhile [of "xs" is_digit] y xs minus
      by (simp add: Suc_diff_le length_dropWhile_le le_SucI)
    ultimately show ?thesis using minus by (simp del: ms.simps)
  next
    case other
    have "ms n temperature_re (x # xs) = []"
      using other plus_digit_none [of "x # xs" n] plus_digit_none [of xs n]
      by (auto simp: ms_temperature_re simp del: ms.simps)
    then show ?thesis using other by (auto simp del: ms.simps)
  qed
qed

lemma search_Nil: "search_from n temperature_re [] = None"
  by (simp add: ms_temperature_re del: ms.simps)

lemma first_signed_integer_Nil: "first_signed_integer [] = None"
  by (simp add: first_signed_integer_def)

lemma first_signed_integer_Cons:
  "first_signed_integer (x # xs) =
     (if is_digit x then Some (int (decimal_value (takeWhile is_digit (x # xs))))
      else if x = 45 \<and> xs \<noteq> [] \<and> is_digit (hd xs)
        then Some (- int (decimal_value (takeWhile is_digit xs)))
      else first_signed_integer xs)"
proof (cases xs)
  case Nil
  then show ?thesis by (simp add: first_signed_integer_def)
next
  case (Cons y ys)
  then show ?thesis
    using not_digit_45 by (auto simp: first_signed_integer_def Let_def)
qed

lemma color_of_search_scan:
  "(case search_from n temperature_re s of
      None \<Rightarrow> Inr ''white''
    | Some temperature \<Rightarrow>
        (case int_of_decimal temperature of
           None \<Rightarrow> Inl ValueError
         | Some t \<Rightarrow> Inr (pick_color temp_color_map t))) =
     Inr (case first_signed_integer s of None \<Rightarrow> ''white'' | Some t \<Rightarrow> color_bands t)"
proof (induction s)
  case Nil
  show ?case
    by (simp add: search_Nil first_signed_integer_Nil del: search_from.simps)
next
  case (Cons x xs)
  show ?case
  proof (cases "is_digit x")
    case True
    then show ?thesis
      unfolding search_step first_signed_integer_Cons
      by (simp add: int_of_decimal_digits pick_color_bands del: takeWhile.simps)
  next
    case False
    show ?thesis
    proof (cases "x = 45 \<and> xs \<noteq> [] \<and> is_digit (hd xs)")
      case True
      then obtain y ys where xs: "xs = y # ys" and y: "is_digit y" by (cases xs) auto
      show ?thesis
        unfolding search_step first_signed_integer_Cons
        using False True int_of_decimal_minus [OF y, of ys] xs
        by (simp add: pick_color_bands del: takeWhile.simps)
    next
      case no: False
      show ?thesis
        unfolding search_step first_signed_integer_Cons
        using False no Cons.IH by auto
    qed
  qed
qed

lemma get_temperature_color_scan:
  "get_temperature_color s =
     Inr (case first_signed_integer s of None \<Rightarrow> ''white'' | Some t \<Rightarrow> color_bands t)"
  using color_of_search_scan [of "length s" s]
  by (simp add: get_temperature_color_def re_search_def)

text \<open>
  What \<open>first_signed_integer\<close> finds, said with the pieces of the text: no digit
  before the run, the run of digits, and no digit directly after it.
\<close>

lemma first_signed_integer_decomp:
  assumes p: "list_all (\<lambda>c. \<not> is_digit c) p" and ds: "all_digits ds"
    and z: "post = [] \<or> \<not> is_digit (hd post)"
  shows "first_signed_integer (p @ ds @ post) =
           Some (if p \<noteq> [] \<and> last p = 45 then - int (decimal_value ds)
                 else int (decimal_value ds))"
proof -
  from ds obtain d ds' where dd: "ds = d # ds'" and d: "is_digit d"
    by (cases ds) (auto simp: all_digits_def)
  have all: "\<And>x. x \<in> set ds \<Longrightarrow> is_digit x"
    using ds by (simp add: all_digits_def list_all_iff)
  have pre: "takeWhile (\<lambda>c. \<not> is_digit c) (p @ ds @ post) = p"
    using p d by (simp add: takeWhile_append2 list_all_iff dd)
  have post: "dropWhile (\<lambda>c. \<not> is_digit c) (p @ ds @ post) = ds @ post"
    using p d by (simp add: dropWhile_append2 list_all_iff dd)
  have "takeWhile is_digit post = []"
    using z by (cases post) auto
  then have run: "takeWhile is_digit (ds @ post) = ds"
    using all by (simp add: takeWhile_append2)
  show ?thesis
    using ds by (simp add: first_signed_integer_def pre post run all_digits_def)
qed

lemma first_signed_integer_no_digit:
  "list_all (\<lambda>c. \<not> is_digit c) s \<Longrightarrow> first_signed_integer s = None"
proof -
  assume "list_all (\<lambda>c. \<not> is_digit c) s"
  then have d: "dropWhile (\<lambda>c. \<not> is_digit c) s = []"
    by (simp add: list_all_iff)
  show ?thesis
    by (simp add: first_signed_integer_def d)
qed

text \<open>
  C2. For every text, \<open>get_temperature_color\<close> takes the first signed integer
  substring \<open>t\<close>; it returns \<open>cyan\<close> when \<open>t \<le> 40\<close>, \<open>blue\<close> when \<open>40 < t \<le> 60\<close>,
  \<open>yellow\<close> when \<open>60 < t \<le> 80\<close> and \<open>red\<close> when \<open>t > 80\<close>; without any integer in the
  text it returns \<open>white\<close>. It never raises.
\<close>

theorem get_temperature_color_first_integer:
  "get_temperature_color s =
     Inr (case first_signed_integer s of
            None \<Rightarrow> ''white''
          | Some t \<Rightarrow>
              if t \<le> 40 then ''cyan'' else if t \<le> 60 then ''blue''
              else if t \<le> 80 then ''yellow'' else ''red'')"
proof -
  have "get_temperature_color s =
      (case search_from (length s) temperature_re s of
         None \<Rightarrow> Inr ''white''
       | Some temperature \<Rightarrow>
           (case int_of_decimal temperature of
              None \<Rightarrow> Inl ValueError
            | Some t \<Rightarrow> Inr (pick_color temp_color_map t)))"
    by (simp add: get_temperature_color_def re_search_def)
  also have "\<dots> =
      Inr (case first_signed_integer s of None \<Rightarrow> ''white'' | Some t \<Rightarrow> color_bands t)"
    by (rule color_of_search_scan)
  finally show ?thesis
    by (simp add: color_bands_def split: option.split)
qed

theorem get_temperature_color_first_integer_witness:
  "get_temperature_color (ustr ''40'') = Inr ''cyan'' \<and>
   get_temperature_color (ustr ''41'') = Inr ''blue'' \<and>
   get_temperature_color (ustr ''60'') = Inr ''blue'' \<and>
   get_temperature_color (ustr ''61'') = Inr ''yellow'' \<and>
   get_temperature_color (ustr ''80'') = Inr ''yellow'' \<and>
   get_temperature_color (ustr ''81'') = Inr ''red'' \<and>
   get_temperature_color (ustr ''it is -10 out'') = Inr ''cyan'' \<and>
   get_temperature_color (ustr ''no number'') = Inr ''white''"
proof -
  have a: "get_temperature_color (ustr ''40'') = Inr ''cyan''"
    using get_temperature_color_first_integer [of "ustr ''40''"]
    by (simp add: first_signed_integer_def ustr_def is_digit_def decimal_value_def)
  have b: "get_temperature_color (ustr ''41'') = Inr ''blue''"
    using get_temperature_color_first_integer [of "ustr ''41''"]
    by (simp add: first_signed_integer_def ustr_def is_digit_def decimal_value_def)
  have c: "get_temperature_color (ustr ''60'') = Inr ''blue''"
    using get_temperature_color_first_integer [of "ustr ''60''"]
    by (simp add: first_signed_integer_def ustr_def is_digit_def decimal_value_def)
  have d: "get_temperature_color (ustr ''61'') = Inr ''yellow''"
    using get_temperature_color_first_integer [of "ustr ''61''"]
    by (simp add: first_signed_integer_def ustr_def is_digit_def decimal_value_def)
  have e: "get_temperature_color (ustr ''80'') = Inr ''yellow''"
    using get_temperature_color_first_integer [of "ustr ''80''"]
    by (simp add: first_signed_integer_def ustr_def is_digit_def decimal_value_def)
  have f: "get_temperature_color (ustr ''81'') = Inr ''red''"
    using get_temperature_color_first_integer [of "ustr ''81''"]
    by (simp add: first_signed_integer_def ustr_def is_digit_def decimal_value_def)
  have g: "get_temperature_color (ustr ''it is -10 out'') = Inr ''cyan''"
    using get_temperature_color_first_integer [of "ustr ''it is -10 out''"]
    by (simp add: first_signed_integer_def ustr_def is_digit_def decimal_value_def)
  have h: "get_temperature_color (ustr ''no number'') = Inr ''white''"
    using get_temperature_color_first_integer [of "ustr ''no number''"]
    by (simp add: first_signed_integer_def ustr_def is_digit_def decimal_value_def)
  from a b c d e f g h show ?thesis by blast
qed

section \<open>Decimal numerals are read back\<close>

lemma decimal_value_snoc: "decimal_value (ds @ [d]) = 10 * decimal_value ds + (d - 48)"
  by (simp add: decimal_value_def)

lemma digits_of_props:
  "list_all is_digit (digits_of n) \<and> digits_of n \<noteq> [] \<and> decimal_value (digits_of n) = n"
proof (induction n rule: digits_of.induct)
  case (1 n)
  show ?case
  proof (cases "n < 10")
    case True
    then show ?thesis
      by (subst (1 2 3) digits_of.simps) (simp add: is_digit_def decimal_value_def)
  next
    case False
    have d: "is_digit (48 + n mod 10)" by (simp add: is_digit_def)
    from False "1.IH" show ?thesis
      by (subst (1 2 3) digits_of.simps) (simp add: decimal_value_snoc d del: digits_of.simps)
  qed
qed

lemma all_digits_digits_of: "all_digits (digits_of n)"
  using digits_of_props [of n] by (simp add: all_digits_def)

lemma int_of_decimal_str_of_int: "int_of_decimal (str_of_int t) = Some t"
proof (cases "t < 0")
  case True
  then show ?thesis
    using digits_of_props [of "nat (- t)"] all_digits_digits_of [of "nat (- t)"]
    by (simp add: int_of_decimal_def str_of_int_def)
next
  case False
  obtain d ds where dd: "digits_of (nat t) = d # ds"
    using digits_of_props [of "nat t"] by (cases "digits_of (nat t)") auto
  have "is_digit d"
    using digits_of_props [of "nat t"] dd by simp
  then have "d \<noteq> 45" using not_digit_45 by auto
  then show ?thesis
    using False digits_of_props [of "nat t"] all_digits_digits_of [of "nat t"] dd
    by (simp add: int_of_decimal_def str_of_int_def)
qed

lemma first_signed_integer_str_of_int:
  assumes p: "list_all (\<lambda>c. \<not> is_digit c) p" and l: "p \<noteq> []" "last p \<noteq> 45"
    and z: "\<not> is_digit z"
  shows "first_signed_integer (p @ str_of_int t @ z # rest) = Some t"
proof (cases "t < 0")
  case True
  have p': "list_all (\<lambda>c. \<not> is_digit c) (p @ [45])"
    using p not_digit_45 by simp
  have z': "z # rest = [] \<or> \<not> is_digit (hd (z # rest))"
    using z by simp
  have "first_signed_integer ((p @ [45]) @ digits_of (nat (- t)) @ z # rest) =
      Some (- int (decimal_value (digits_of (nat (- t)))))"
    using first_signed_integer_decomp [OF p' all_digits_digits_of z', of "nat (- t)"]
    by simp
  then show ?thesis
    using True digits_of_props [of "nat (- t)"] by (simp add: str_of_int_def)
next
  case False
  have z': "z # rest = [] \<or> \<not> is_digit (hd (z # rest))"
    using z by simp
  have "first_signed_integer (p @ digits_of (nat t) @ z # rest) =
      Some (int (decimal_value (digits_of (nat t))))"
    using first_signed_integer_decomp [OF p all_digits_digits_of z', of "nat t"] l
    by simp
  then show ?thesis
    using False digits_of_props [of "nat t"] by (simp add: str_of_int_def)
qed

section \<open>The formatter\<close>

lemma output_template:
  "TextFormatter_output tbl \<lparr>temp = t, conditions = PUnicode c, icon = i\<rparr> =
     Inr (ustr ''Today it's '' @ str_of_int t @ [0xB0] @ ustr '' '' @ text_of i @
          ustr '' and '' @ unicode_lower tbl c)"
  by (simp add: TextFormatter_output_def ustr_def)

lemma lower_unit_upper: "lower_unit tbl (ascii_upper x) = lower_unit tbl x"
  by (auto simp: lower_unit_def ascii_upper_def)

lemma unicode_lower_upper: "unicode_lower tbl (map ascii_upper c) = unicode_lower tbl c"
  by (simp add: unicode_lower_def lower_unit_upper)

lemma unicode_lower_no_capital:
  "list_all (\<lambda>y. y < 128) c \<Longrightarrow>
   list_all (\<lambda>x. \<not> (65 \<le> x \<and> x \<le> 90)) (unicode_lower tbl c)"
  by (induction c) (auto simp: unicode_lower_def lower_unit_def)

text \<open>
  C5. For every context whose condition is a text, \<open>TextFormatter.output\<close> returns
  exactly \<open>Today it's\<close>, the temperature in decimal, the degree sign, the icon and
  \<open>and\<close> followed by the condition text in lower case. The result is a function of
  the context; the case of the ASCII letters of the condition text does not change
  it, and an ASCII condition text leaves no capital letter in its part of the result.
\<close>

theorem TextFormatter_output_is_template:
  assumes "conditions ctx = PUnicode c"
  shows "TextFormatter_output tbl ctx =
           Inr (ustr ''Today it's '' @ str_of_int (temp ctx) @ [0xB0] @ ustr '' '' @
                text_of (icon ctx) @ ustr '' and '' @ unicode_lower tbl c) \<and>
         TextFormatter_output tbl (ctx\<lparr>conditions := PUnicode (map ascii_upper c)\<rparr>) =
           TextFormatter_output tbl ctx \<and>
         (list_all (\<lambda>y. y < 128) c \<longrightarrow>
            list_all (\<lambda>x. \<not> (65 \<le> x \<and> x \<le> 90)) (unicode_lower tbl c))"
proof -
  have a: "TextFormatter_output tbl ctx =
           Inr (ustr ''Today it's '' @ str_of_int (temp ctx) @ [0xB0] @ ustr '' '' @
                text_of (icon ctx) @ ustr '' and '' @ unicode_lower tbl c)"
    using assms by (simp add: TextFormatter_output_def ustr_def)
  have b: "TextFormatter_output tbl (ctx\<lparr>conditions := PUnicode (map ascii_upper c)\<rparr>) =
           TextFormatter_output tbl ctx"
    using assms by (simp add: TextFormatter_output_def unicode_lower_upper)
  from a b unicode_lower_no_capital [of c tbl] show ?thesis by blast
qed

theorem TextFormatter_output_is_template_witness:
  "TextFormatter_output id
      \<lparr>temp = 72, conditions = PUnicode (ustr ''Clear Sky''), icon = FText SUN\<rparr> =
     Inr (ustr ''Today it's 72'' @ [0xB0, 32, 0x2600] @ ustr '' and clear sky'')"
proof -
  have h: "conditions \<lparr>temp = 72, conditions = PUnicode (ustr ''Clear Sky''), icon = FText SUN\<rparr>
      = PUnicode (ustr ''Clear Sky'')"
    by simp
  show ?thesis
    using TextFormatter_output_is_template [OF h, of id]
    by (simp add: ustr_def unicode_lower_def lower_unit_def str_of_int_def SUN_def)
qed

section \<open>The color of the formatted line\<close>

lemma color_of_output:
  "get_temperature_color (ustr ''Today it's '' @ str_of_int t @ [0xB0] @ rest) =
     Inr (color_bands t)"
proof -
  have "first_signed_integer (ustr ''Today it's '' @ str_of_int t @ 0xB0 # rest) = Some t"
    by (rule first_signed_integer_str_of_int) (simp_all add: ustr_def is_digit_def)
  then show ?thesis by (simp add: get_temperature_color_scan)
qed

text \<open>
  C10. For every context with an integer temperature (and a text as condition, so
  that the formatter returns), the color selected from the formatted line is the
  threshold mapping applied to the temperature of the context: the temperature is the
  first signed integer of the line.
\<close>

theorem color_of_formatted_output:
  assumes "conditions ctx = PUnicode c"
  shows "bind_err (TextFormatter_output tbl ctx) get_temperature_color =
           Inr (color_bands (temp ctx))"
proof -
  have "TextFormatter_output tbl ctx =
      Inr (ustr ''Today it's '' @ str_of_int (temp ctx) @ [0xB0] @
           (ustr '' '' @ text_of (icon ctx) @ ustr '' and '' @ unicode_lower tbl c))"
    using assms by (simp add: TextFormatter_output_def ustr_def)
  then show ?thesis
    using color_of_output [of "temp ctx"] by (simp add: bind_err_def)
qed

theorem color_of_formatted_output_witness:
  "bind_err (TextFormatter_output id
      \<lparr>temp = - 10, conditions = PUnicode (ustr ''Snow 24h''), icon = FText SNOW\<rparr>)
     get_temperature_color = Inr ''cyan''"
proof -
  have h: "conditions \<lparr>temp = - 10, conditions = PUnicode (ustr ''Snow 24h''), icon = FText SNOW\<rparr>
      = PUnicode (ustr ''Snow 24h'')"
    by simp
  show ?thesis
    using color_of_formatted_output [OF h, of id] by (simp add: color_bands_def)
qed

section \<open>The icon table\<close>

text \<open>
  C3, as the code has it. \<open>ascii_icon\<close> is a function of the code alone: the clear
  codes give the sun symbol, the few, scattered and broken cloud codes the clouds
  symbol, the shower, rain and thunderstorm codes the rain symbol, the snow codes
  the snow symbol. Every other text gives the default of the table, which is the
  integer \<open>0\<close> and not an empty icon: the formatter writes it as the digit \<open>0\<close>.
\<close>

theorem ascii_icon_table:
  "OpenWeatherMap_ascii_icon (PUnicode code) =
     Inr (if code \<in> set clear_codes then FText SUN
          else if code \<in> set cloud_codes then FText CLOUDS
          else if code \<in> set rain_codes then FText RAIN
          else if code \<in> set snow_codes then FText SNOW
          else FInt 0)"
  by (simp add: OpenWeatherMap_ascii_icon_def codes_def clear_codes_def cloud_codes_def
        rain_codes_def snow_codes_def ustr_def)

theorem ascii_icon_table_witness:
  "OpenWeatherMap_ascii_icon (PUnicode (ustr ''01d'')) = Inr (FText SUN) \<and>
   OpenWeatherMap_ascii_icon (PUnicode (ustr ''13n'')) = Inr (FText SNOW) \<and>
   OpenWeatherMap_ascii_icon (PUnicode (ustr ''99x'')) = Inr (FInt 0)"
proof -
  have a: "OpenWeatherMap_ascii_icon (PUnicode (ustr ''01d'')) = Inr (FText SUN)"
    using ascii_icon_table [of "ustr ''01d''"]
    by (simp add: clear_codes_def ustr_def)
  have b: "OpenWeatherMap_ascii_icon (PUnicode (ustr ''13n'')) = Inr (FText SNOW)"
    using ascii_icon_table [of "ustr ''13n''"]
    by (simp add: clear_codes_def cloud_codes_def rain_codes_def snow_codes_def ustr_def)
  have c: "OpenWeatherMap_ascii_icon (PUnicode (ustr ''99x'')) = Inr (FInt 0)"
    using ascii_icon_table [of "ustr ''99x''"]
    by (simp add: clear_codes_def cloud_codes_def rain_codes_def snow_codes_def ustr_def)
  from a b c show ?thesis by blast
qed

text \<open>
  The code \<open>99x\<close> is not in the table. What \<open>ascii_icon\<close> returns for it is the
  integer \<open>0\<close>, whose text in the formatted line is \<open>0\<close>; it is not the empty text.
\<close>

theorem ascii_icon_default_not_empty:
  "OpenWeatherMap_ascii_icon (PUnicode (ustr ''99x'')) = Inr (FInt 0) \<and>
   OpenWeatherMap_ascii_icon (PUnicode (ustr ''99x'')) \<noteq> Inr (FText []) \<and>
   text_of (FInt 0) = ustr ''0''"
  by (simp add: OpenWeatherMap_ascii_icon_def codes_def ustr_def str_of_int_def)

section \<open>Units and the command line\<close>

text \<open>
  C9. The query parameters that \<open>now\<close> builds and sends carry \<open>imperial\<close> for
  \<open>fahrenheit\<close> and \<open>metric\<close> for \<open>celsius\<close>, and the parser gives \<open>fahrenheit\<close> when
  the command line has no units option.
\<close>

theorem units_mapping_and_default:
  "now_payload la lo ''fahrenheit'' = Inr \<lparr>p_lat = la, p_lon = lo, p_units = ''imperial''\<rparr> \<and>
   now_payload la lo ''celsius'' = Inr \<lparr>p_lat = la, p_lon = lo, p_units = ''metric''\<rparr> \<and>
   snd (OpenWeatherMap_now formatter conv api la lo ''fahrenheit'' sent) =
     sent @ [GetWeather weather_url \<lparr>p_lat = la, p_lon = lo, p_units = ''imperial''\<rparr>] \<and>
   snd (OpenWeatherMap_now formatter conv api la lo ''celsius'' sent) =
     sent @ [GetWeather weather_url \<lparr>p_lat = la, p_lon = lo, p_units = ''metric''\<rparr>] \<and>
   Arguments_parse \<lparr>units_flag = None, ip_flag = given\<rparr> =
     Inr \<lparr>arg_ip = given, arg_units = ''fahrenheit''\<rparr>"
proof -
  have f: "map_of MAPPING_UNITS ''fahrenheit'' = Some ''imperial''"
    by (simp add: MAPPING_UNITS_def)
  have c: "map_of MAPPING_UNITS ''celsius'' = Some ''metric''"
    by (simp add: MAPPING_UNITS_def)
  have d: "units_choices ! Suc 0 = ''fahrenheit''"
    by (simp add: units_choices_def)
  show ?thesis
    by (simp add: now_payload_def OpenWeatherMap_now_def Arguments_parse_def f c d)
qed

theorem units_mapping_and_default_witness:
  "snd (OpenWeatherMap_now (TextFormatter_output id) no_conv (weather_api mock_env)
          (Float 40 0) (Float (- 75) 0) ''celsius'' []) =
     [GetWeather weather_url
        \<lparr>p_lat = Float 40 0, p_lon = Float (- 75) 0, p_units = ''metric''\<rparr>] \<and>
   Arguments_parse \<lparr>units_flag = None, ip_flag = Some ''8.8.8.8''\<rparr> =
     Inr \<lparr>arg_ip = Some ''8.8.8.8'', arg_units = ''fahrenheit''\<rparr>"
  using units_mapping_and_default [of "Float 40 0" "Float (- 75) 0" "TextFormatter_output id"
      no_conv "weather_api mock_env" "[]" "Some ''8.8.8.8''"]
  by simp

section \<open>The orchestrator's error paths\<close>

lemma validate_8888: "PublicIPAddress_validate (Str ''8.8.8.8'') = Inr True"
  by code_simp

lemma validate_10001: "PublicIPAddress_validate (Unicode (ustr ''10.0.0.1'')) = Inr True"
  by code_simp

lemma mock_parse:
  "Arguments_parse (cli_args mock_env) =
     Inr \<lparr>arg_ip = Some ''8.8.8.8'', arg_units = ''fahrenheit''\<rparr>"
  by (simp add: mock_env_def Arguments_parse_def units_choices_def)

lemma mock_resolve:
  "resolve_ip mock_env \<lparr>arg_ip = Some ''8.8.8.8'', arg_units = ''fahrenheit''\<rparr> =
     (Inr (Some (Str ''8.8.8.8'')), [])"
  by (simp add: resolve_ip_def falsy_def validate_8888)

lemma mock_lookup:
  "geolite2_lookup mock_env ip = Some \<lparr>location = (Float 40 0, Float (- 75) 0)\<rparr>"
  by (simp add: mock_env_def)

text \<open>
  C7. When the call of the weather provider raises \<open>WeatherDataException\<close>, the run
  writes one line of apology, with the message of the exception, to standard error,
  writes nothing to standard output, and exits with status 1.
\<close>

theorem run_apologises:
  assumes "Arguments_parse (cli_args w) = Inr a"
    and "resolve_ip w a = (Inr ip_address, sent)"
    and "geolite2_lookup w ip_address = Some match"
    and "OpenWeatherMap_now (TextFormatter_output tbl) conv (weather_api w)
           (fst (location match)) (snd (location match)) (arg_units a) sent =
         (Inl (WeatherDataException m), sent')"
  shows "Weather_run tbl conv w =
           \<lparr>requests = sent', stdout = [],
            stderr = [''Something bad happens('' @ m @ ''), Please try again later.''],
            status = Inl (SystemExit 1)\<rparr> \<and>
         exit_code (Weather_run tbl conv w) = 1"
  using assms by (simp add: Weather_run_def exit_code_def)

theorem run_apologises_witness:
  "Weather_run id no_conv bad_json_env =
     \<lparr>requests = [GetWeather weather_url
          \<lparr>p_lat = Float 40 0, p_lon = Float (- 75) 0, p_units = ''imperial''\<rparr>],
      stdout = [],
      stderr = [''Something bad happens('' @ ''Incorrect json response'' @
                ''), Please try again later.''],
      status = Inl (SystemExit 1)\<rparr> \<and>
   exit_code (Weather_run id no_conv bad_json_env) = 1"
proof -
  have h1: "Arguments_parse (cli_args bad_json_env) =
      Inr \<lparr>arg_ip = Some ''8.8.8.8'', arg_units = ''fahrenheit''\<rparr>"
    using mock_parse by (simp add: bad_json_env_def)
  have h2: "resolve_ip bad_json_env \<lparr>arg_ip = Some ''8.8.8.8'', arg_units = ''fahrenheit''\<rparr> =
      (Inr (Some (Str ''8.8.8.8'')), [])"
    by (simp add: resolve_ip_def falsy_def validate_8888)
  have h3: "geolite2_lookup bad_json_env (Some (Str ''8.8.8.8'')) =
      Some \<lparr>location = (Float 40 0, Float (- 75) 0)\<rparr>"
    using mock_lookup by (simp add: bad_json_env_def)
  have h4: "OpenWeatherMap_now (TextFormatter_output id) no_conv (weather_api bad_json_env)
      (fst (location \<lparr>location = (Float 40 0, Float (- 75) 0)\<rparr>))
      (snd (location \<lparr>location = (Float 40 0, Float (- 75) 0)\<rparr>))
      (arg_units \<lparr>arg_ip = Some ''8.8.8.8'', arg_units = ''fahrenheit''\<rparr>) [] =
      (Inl (WeatherDataException ''Incorrect json response''),
       [GetWeather weather_url
          \<lparr>p_lat = Float 40 0, p_lon = Float (- 75) 0, p_units = ''imperial''\<rparr>])"
    by (simp add: OpenWeatherMap_now_def now_payload_def MAPPING_UNITS_def bad_json_env_def)
  show ?thesis
    by (rule run_apologises [OF h1 h2 h3 h4])
qed

lemma resolve_ip_requests:
  "resolve_ip w a = (r, sent) \<Longrightarrow> sent = [] \<or> sent = [GetPublicIP public_ip_url]"
  by (auto simp: resolve_ip_def PublicIPAddress_resolve_def split: if_splits sum.splits)

text \<open>
  C8. When the geolocation lookup has no match for the resolved address, the run
  ends with \<open>IPAddressException\<close>, message \<open>Incorrect ip address\<close>; it has written
  nothing and has sent no request to the weather provider.
\<close>

theorem run_no_match:
  assumes "Arguments_parse (cli_args w) = Inr a"
    and "resolve_ip w a = (Inr ip_address, sent)"
    and "geolite2_lookup w ip_address = None"
  shows "Weather_run tbl conv w =
           \<lparr>requests = sent, stdout = [], stderr = [],
            status = Inl (IPAddressException ''Incorrect ip address'')\<rparr> \<and>
         (\<forall>url p. GetWeather url p \<notin> set (requests (Weather_run tbl conv w)))"
proof -
  have run: "Weather_run tbl conv w =
           \<lparr>requests = sent, stdout = [], stderr = [],
            status = Inl (IPAddressException ''Incorrect ip address'')\<rparr>"
    using assms by (simp add: Weather_run_def raised_def)
  have "sent = [] \<or> sent = [GetPublicIP public_ip_url]"
    using assms(2) by (rule resolve_ip_requests)
  then have "\<forall>url p. GetWeather url p \<notin> set sent"
    by auto
  with run show ?thesis by simp
qed

theorem run_no_match_witness:
  "Weather_run id no_conv no_match_env =
     \<lparr>requests = [GetPublicIP public_ip_url], stdout = [], stderr = [],
      status = Inl (IPAddressException ''Incorrect ip address'')\<rparr> \<and>
   (\<forall>url p. GetWeather url p \<notin> set (requests (Weather_run id no_conv no_match_env)))"
proof -
  have h1: "Arguments_parse (cli_args no_match_env) =
      Inr \<lparr>arg_ip = None, arg_units = ''fahrenheit''\<rparr>"
    by (simp add: no_match_env_def Arguments_parse_def units_choices_def)
  have h2: "resolve_ip no_match_env \<lparr>arg_ip = None, arg_units = ''fahrenheit''\<rparr> =
      (Inr (Some (Unicode (ustr ''10.0.0.1''))), [GetPublicIP public_ip_url])"
    using validate_10001
    by (simp add: resolve_ip_def falsy_def PublicIPAddress_resolve_def no_match_env_def)
  have h3: "geolite2_lookup no_match_env (Some (Unicode (ustr ''10.0.0.1''))) = None"
    by (simp add: no_match_env_def)
  show ?thesis
    by (rule run_no_match [OF h1 h2 h3])
qed

section \<open>The end-to-end example\<close>

lemma read_context_rain:
  assumes "getitem_key weather (ustr ''main'') = Inr m"
    and "getitem_key m (ustr ''temp'') = Inr (PInt 55)"
    and "getitem_key weather (ustr ''weather'') = Inr ws"
    and "getitem_0 ws = Inr w0"
    and "getitem_key w0 (ustr ''description'') = Inr (PUnicode (ustr ''light rain''))"
    and "getitem_key w0 (ustr ''icon'') = Inr (PUnicode (ustr ''10d''))"
  shows "read_context conv weather =
           Inr \<lparr>temp = 55, conditions = PUnicode (ustr ''light rain''), icon = FText RAIN\<rparr>"
  using assms
  by (simp add: read_context_def bind_err_def OpenWeatherMap_ascii_icon_def codes_def ustr_def)

lemma output_rain:
  "TextFormatter_output tbl
      \<lparr>temp = 55, conditions = PUnicode (ustr ''light rain''), icon = FText RAIN\<rparr> =
     Inr (ustr ''Today it's 55'' @ [0xB0, 32, 0x2602] @ ustr '' and light rain'')"
  by (simp add: TextFormatter_output_def ustr_def unicode_lower_def lower_unit_def RAIN_def
        str_of_int_def)

lemma color_rain:
  "get_temperature_color (ustr ''Today it's 55'' @ [0xB0, 32, 0x2602] @ ustr '' and light rain'')
     = Inr ''blue''"
proof -
  have "ustr ''Today it's 55'' @ [0xB0, 32, 0x2602] @ ustr '' and light rain'' =
        ustr ''Today it's '' @ str_of_int 55 @ [0xB0] @ ([32, 0x2602] @ ustr '' and light rain'')"
    by (simp add: ustr_def str_of_int_def)
  then show ?thesis
    using color_of_output [of 55 "[32, 0x2602] @ ustr '' and light rain''"]
    by (simp add: color_bands_def)
qed

lemma mock_read_context:
  "read_context conv mock_weather =
     Inr \<lparr>temp = 55, conditions = PUnicode (ustr ''light rain''), icon = FText RAIN\<rparr>"
  by (simp add: mock_weather_def read_context_def bind_err_def OpenWeatherMap_ascii_icon_def
        codes_def ustr_def)

lemma mock_run:
  "Weather_run id no_conv mock_env =
     \<lparr>requests = [GetWeather weather_url
          \<lparr>p_lat = Float 40 0, p_lon = Float (- 75) 0, p_units = ''imperial''\<rparr>],
      stdout = [(''blue'',
          ustr ''Today it's 55'' @ [0xB0, 32, 0x2602] @ ustr '' and light rain'')],
      stderr = [], status = Inr ()\<rparr>"
proof -
  have "OpenWeatherMap_now (TextFormatter_output id) no_conv (weather_api mock_env)
      (Float 40 0) (Float (- 75) 0) ''fahrenheit'' [] =
      (Inr (ustr ''Today it's 55'' @ [0xB0, 32, 0x2602] @ ustr '' and light rain''),
       [GetWeather weather_url
          \<lparr>p_lat = Float 40 0, p_lon = Float (- 75) 0, p_units = ''imperial''\<rparr>])"
    using mock_read_context [of no_conv] output_rain [of id]
    by (simp add: OpenWeatherMap_now_def now_payload_def MAPPING_UNITS_def mock_env_def)
  then show ?thesis
    using color_rain
    by (simp add: Weather_run_def mock_parse mock_resolve mock_lookup del: append.simps)
qed

text \<open>
  At the example of the specification the line that the run prints carries the rain
  symbol of the source, U+2602. The line of the claim carries U+2614, and is not
  what the run prints.
\<close>

theorem run_rain_symbol_differs:
  "stdout (Weather_run id no_conv mock_env) =
     [(''blue'', ustr ''Today it's 55'' @ [0xB0, 32, 0x2602] @ ustr '' and light rain'')] \<and>
   stdout (Weather_run id no_conv mock_env) \<noteq>
     [(''blue'', ustr ''Today it's 55'' @ [0xB0, 32, 0x2614] @ ustr '' and light rain'')]"
  by (simp add: mock_run ustr_def)

text \<open>
  C6, as the code has it. When geolocation returns (40.0, -75.0), the units are
  fahrenheit and the weather response contains temperature 55, icon \<open>10d\<close> and
  description \<open>light rain\<close>, the run sends one request to the weather API, prints
  exactly \<open>Today it's 55\<close>, the degree sign, a space, the symbol U+2602 and
  \<open>and light rain\<close> in blue to standard output, writes nothing to standard error and
  exits with status 0.
\<close>

theorem run_prints_rain_in_blue:
  assumes "Arguments_parse (cli_args w) = Inr a"
    and "arg_units a = ''fahrenheit''"
    and "resolve_ip w a = (Inr ip_address, sent)"
    and "geolite2_lookup w ip_address = Some match"
    and "location match = (Float 40 0, Float (- 75) 0)"
    and "weather_api w \<lparr>p_lat = Float 40 0, p_lon = Float (- 75) 0, p_units = ''imperial''\<rparr> =
           Some weather"
    and "getitem_key weather (ustr ''main'') = Inr m"
    and "getitem_key m (ustr ''temp'') = Inr (PInt 55)"
    and "getitem_key weather (ustr ''weather'') = Inr ws"
    and "getitem_0 ws = Inr w0"
    and "getitem_key w0 (ustr ''description'') = Inr (PUnicode (ustr ''light rain''))"
    and "getitem_key w0 (ustr ''icon'') = Inr (PUnicode (ustr ''10d''))"
  shows "Weather_run tbl conv w =
           \<lparr>requests = sent @ [GetWeather weather_url
                \<lparr>p_lat = Float 40 0, p_lon = Float (- 75) 0, p_units = ''imperial''\<rparr>],
            stdout = [(''blue'',
                ustr ''Today it's 55'' @ [0xB0, 32, 0x2602] @ ustr '' and light rain'')],
            stderr = [], status = Inr ()\<rparr> \<and>
         exit_code (Weather_run tbl conv w) = 0"
proof -
  have rc: "read_context conv weather =
      Inr \<lparr>temp = 55, conditions = PUnicode (ustr ''light rain''), icon = FText RAIN\<rparr>"
    using assms(7-12) by (rule read_context_rain)
  have now: "OpenWeatherMap_now (TextFormatter_output tbl) conv (weather_api w)
      (fst (location match)) (snd (location match)) (arg_units a) sent =
      (Inr (ustr ''Today it's 55'' @ [0xB0, 32, 0x2602] @ ustr '' and light rain''),
       sent @ [GetWeather weather_url
                \<lparr>p_lat = Float 40 0, p_lon = Float (- 75) 0, p_units = ''imperial''\<rparr>])"
    using assms(2,5,6) rc output_rain [of tbl]
    by (simp add: OpenWeatherMap_now_def now_payload_def MAPPING_UNITS_def)
  show ?thesis
    using assms(1,3,4) color_rain
    by (simp add: Weather_run_def now exit_code_def del: append.simps)
qed

theorem run_prints_rain_in_blue_witness:
  "Weather_run id no_conv mock_env =
     \<lparr>requests = [] @ [GetWeather weather_url
          \<lparr>p_lat = Float 40 0, p_lon = Float (- 75) 0, p_units = ''imperial''\<rparr>],
      stdout = [(''blue'',
          ustr ''Today it's 55'' @ [0xB0, 32, 0x2602] @ ustr '' and light rain'')],
      stderr = [], status = Inr ()\<rparr> \<and>
   exit_code (Weather_run id no_conv mock_env) = 0"
proof -
  have h2: "arg_units \<lparr>arg_ip = Some ''8.8.8.8'', arg_units = ''fahrenheit''\<rparr> = ''fahrenheit''"
    by simp
  have h4: "location \<lparr>location = (Float 40 0, Float (- 75) 0)\<rparr> = (Float 40 0, Float (- 75) 0)"
    by simp
  have h5: "weather_api mock_env
       \<lparr>p_lat = Float 40 0, p_lon = Float (- 75) 0, p_units = ''imperial''\<rparr> = Some mock_weather"
    by (simp add: mock_env_def)
  have h6: "getitem_key mock_weather (ustr ''main'') = Inr (PDict [(ustr ''temp'', PInt 55)])"
    by (simp add: mock_weather_def ustr_def)
  have h7: "getitem_key (PDict [(ustr ''temp'', PInt 55)]) (ustr ''temp'') = Inr (PInt 55)"
    by simp
  have h8: "getitem_key mock_weather (ustr ''weather'') =
      Inr (PList [PDict [(ustr ''description'', PUnicode (ustr ''light rain'')),
                         (ustr ''icon'', PUnicode (ustr ''10d''))]])"
    by (simp add: mock_weather_def ustr_def)
  have h9: "getitem_0 (PList [PDict [(ustr ''description'', PUnicode (ustr ''light rain'')),
                         (ustr ''icon'', PUnicode (ustr ''10d''))]]) =
      Inr (PDict [(ustr ''description'', PUnicode (ustr ''light rain'')),
                         (ustr ''icon'', PUnicode (ustr ''10d''))])"
    by simp
  have h10: "getitem_key (PDict [(ustr ''description'', PUnicode (ustr ''light rain'')),
                         (ustr ''icon'', PUnicode (ustr ''10d''))]) (ustr ''description'') =
      Inr (PUnicode (ustr ''light rain''))"
    by simp
  have h11: "getitem_key (PDict [(ustr ''description'', PUnicode (ustr ''light rain'')),
                         (ustr ''icon'', PUnicode (ustr ''10d''))]) (ustr ''icon'') =
      Inr (PUnicode (ustr ''10d''))"
    by (simp add: ustr_def)
  show ?thesis
    by (rule run_prints_rain_in_blue
          [OF mock_parse h2 mock_resolve mock_lookup h4 h5 h6 h7 h8 h9 h10 h11])
qed

section \<open>The Weather Provider on the bodies it can receive\<close>

text \<open>
  The other cases of the Weather Provider: a body that is not JSON, a body without
  \<open>main\<close>, without \<open>main.temp\<close> or without \<open>weather\<close> raises
  \<open>WeatherDataException\<close>, and a body with all fields gives the formatted line.
\<close>

lemma now_invalid_json:
  assumes "map_of MAPPING_UNITS un = Some v"
    and "api \<lparr>p_lat = la, p_lon = lo, p_units = v\<rparr> = None"
  shows "fst (OpenWeatherMap_now formatter conv api la lo un sent) =
           Inl (WeatherDataException ''Incorrect json response'')"
  using assms by (simp add: OpenWeatherMap_now_def now_payload_def)

lemma now_without_main:
  assumes "map_of MAPPING_UNITS un = Some v"
    and "api \<lparr>p_lat = la, p_lon = lo, p_units = v\<rparr> = Some (PDict body)"
    and "map_of body (ustr ''main'') = None"
  shows "fst (OpenWeatherMap_now formatter conv api la lo un sent) =
           Inl (WeatherDataException ''No conditions reported for your search'')"
  using assms
  by (simp add: OpenWeatherMap_now_def now_payload_def read_context_def bind_err_def)

lemma now_without_temp:
  assumes "map_of MAPPING_UNITS un = Some v"
    and "api \<lparr>p_lat = la, p_lon = lo, p_units = v\<rparr> = Some (PDict body)"
    and "map_of body (ustr ''main'') = Some (PDict inner)"
    and "map_of inner (ustr ''temp'') = None"
  shows "fst (OpenWeatherMap_now formatter conv api la lo un sent) =
           Inl (WeatherDataException ''No conditions reported for your search'')"
  using assms
  by (simp add: OpenWeatherMap_now_def now_payload_def read_context_def bind_err_def)

lemma now_without_weather:
  assumes "map_of MAPPING_UNITS un = Some v"
    and "api \<lparr>p_lat = la, p_lon = lo, p_units = v\<rparr> = Some (PDict body)"
    and "map_of body (ustr ''main'') = Some (PDict inner)"
    and "map_of inner (ustr ''temp'') = Some (PInt t)"
    and "map_of body (ustr ''weather'') = None"
  shows "fst (OpenWeatherMap_now formatter conv api la lo un sent) =
           Inl (WeatherDataException ''No conditions reported for your search'')"
  using assms
  by (simp add: OpenWeatherMap_now_def now_payload_def read_context_def bind_err_def)

lemma now_all_fields:
  assumes "map_of MAPPING_UNITS un = Some v"
    and "api \<lparr>p_lat = la, p_lon = lo, p_units = v\<rparr> = Some (PDict body)"
    and "map_of body (ustr ''main'') = Some (PDict inner)"
    and "map_of inner (ustr ''temp'') = Some (PInt t)"
    and "map_of body (ustr ''weather'') = Some (PList (PDict w0 # others))"
    and "map_of w0 (ustr ''description'') = Some (PUnicode d)"
    and "map_of w0 (ustr ''icon'') = Some (PUnicode code)"
  shows "fst (OpenWeatherMap_now (TextFormatter_output tbl) conv api la lo un sent) =
           Inr (ustr ''Today it's '' @ str_of_int t @ [0xB0] @ ustr '' '' @
                text_of (case map_of codes code of Some symbol \<Rightarrow> FText symbol | None \<Rightarrow> FInt 0) @
                ustr '' and '' @ unicode_lower tbl d)"
  using assms
  by (simp add: OpenWeatherMap_now_def now_payload_def read_context_def bind_err_def
        OpenWeatherMap_ascii_icon_def output_template)

text \<open>
  C1. A response with \<open>main.temp\<close> and an empty \<open>weather\<close> array has no
  \<open>weather[0]\<close>. \<open>now\<close> does not raise \<open>WeatherDataException\<close> for it: the subscript
  raises \<open>IndexError\<close>, which the handler for \<open>KeyError\<close> lets through, and the run
  ends with that exception, without the line of apology.
\<close>

theorem now_empty_weather_array:
  "fst (OpenWeatherMap_now formatter conv empty_weather_api la lo ''fahrenheit'' sent) =
     Inl IndexError \<and>
   status (Weather_run tbl conv empty_weather_env) = Inl IndexError \<and>
   stderr (Weather_run tbl conv empty_weather_env) = []"
proof -
  have rc: "read_context conv empty_weather = Inl IndexError"
    by (simp add: empty_weather_def read_context_def bind_err_def ustr_def)
  have now: "\<And>f a b s. OpenWeatherMap_now f conv empty_weather_api a b ''fahrenheit'' s =
      (Inl IndexError, s @ [GetWeather weather_url
         \<lparr>p_lat = a, p_lon = b, p_units = ''imperial''\<rparr>])"
    by (simp add: OpenWeatherMap_now_def now_payload_def MAPPING_UNITS_def
          empty_weather_api_def rc)
  have p: "Arguments_parse (cli_args empty_weather_env) =
      Inr \<lparr>arg_ip = Some ''8.8.8.8'', arg_units = ''fahrenheit''\<rparr>"
    using mock_parse by (simp add: empty_weather_env_def)
  have r: "resolve_ip empty_weather_env \<lparr>arg_ip = Some ''8.8.8.8'', arg_units = ''fahrenheit''\<rparr> =
      (Inr (Some (Str ''8.8.8.8'')), [])"
    by (simp add: resolve_ip_def falsy_def validate_8888)
  have l: "geolite2_lookup empty_weather_env (Some (Str ''8.8.8.8'')) =
      Some \<lparr>location = (Float 40 0, Float (- 75) 0)\<rparr>"
    using mock_lookup by (simp add: empty_weather_env_def)
  have w: "weather_api empty_weather_env = empty_weather_api"
    by (simp add: empty_weather_env_def)
  have run: "Weather_run tbl conv empty_weather_env =
      raised IndexError [GetWeather weather_url
         \<lparr>p_lat = Float 40 0, p_lon = Float (- 75) 0, p_units = ''imperial''\<rparr>]"
    by (simp add: Weather_run_def p r l w now)
  show ?thesis
    by (simp add: now run raised_def)
qed

section \<open>What the IPv4 pattern matches\<close>

lemma octet_text_shapes:
  "octet_text a \<longleftrightarrow>
     (\<exists>x. a = [x] \<and> is_digit x) \<or>
     (\<exists>x y. a = [x, y] \<and> is_digit x \<and> is_digit y) \<or>
     (\<exists>x y z. a = [x, y, z] \<and> is_digit x \<and> is_digit y \<and> is_digit z \<and>
        (x \<le> 49 \<or> (x = 50 \<and> y \<le> 52) \<or> (x = 50 \<and> y = 53 \<and> z \<le> 53)))"
proof (cases a)
  case Nil
  then show ?thesis by (simp add: octet_text_def all_digits_def)
next
  case (Cons x a1)
  show ?thesis
  proof (cases a1)
    case Nil
    with Cons show ?thesis
      by (auto simp: octet_text_def all_digits_def decimal_value_def is_digit_def)
  next
    case c2: (Cons y a2)
    show ?thesis
    proof (cases a2)
      case Nil
      with Cons c2 show ?thesis
        by (auto simp: octet_text_def all_digits_def decimal_value_def is_digit_def)
    next
      case c3: (Cons z a3)
      show ?thesis
      proof (cases a3)
        case Nil
        with Cons c2 c3 show ?thesis
          by (auto simp: octet_text_def all_digits_def decimal_value_def is_digit_def)
      next
        case (Cons u a4)
        with \<open>a = x # a1\<close> c2 c3 show ?thesis
          by (simp add: octet_text_def)
      qed
    qed
  qed
qed

lemma ms_octet:
  "r \<in> set (ms n octet s) \<longleftrightarrow>
     (\<exists>x. s = x # r \<and> is_digit x) \<or>
     (\<exists>x y. s = x # y # r \<and> is_digit x \<and> is_digit y) \<or>
     (\<exists>x y z. s = x # y # z # r \<and> is_digit x \<and> is_digit y \<and> is_digit z \<and>
        (x \<le> 49 \<or> (x = 50 \<and> y \<le> 52) \<or> (x = 50 \<and> y = 53 \<and> z \<le> 53)))"
proof (cases s)
  case Nil
  then show ?thesis by (simp add: octet_def)
next
  case (Cons x s1)
  show ?thesis
  proof (cases s1)
    case Nil
    with Cons show ?thesis
      by (auto simp: octet_def is_digit_def)
  next
    case c2: (Cons y s2)
    show ?thesis
    proof (cases s2)
      case Nil
      with Cons c2 show ?thesis
        by (auto simp: octet_def is_digit_def)
    next
      case c3: (Cons z s3)
      with Cons c2 show ?thesis
        by (auto simp: octet_def is_digit_def)
    qed
  qed
qed


lemma in_ms_Seq:
  "r \<in> set (ms n (Seq a b) s) \<longleftrightarrow> (\<exists>m. m \<in> set (ms n a s) \<and> r \<in> set (ms n b m))"
  by auto

lemma in_ms_Eps: "r \<in> set (ms n Eps s) \<longleftrightarrow> r = s"
  by auto

lemma in_ms_Eol: "r \<in> set (ms n Eol s) \<longleftrightarrow> r = s \<and> (s = [] \<or> s = [10])"
  by auto

lemma in_ms_Bol: "r \<in> set (ms n Bol s) \<longleftrightarrow> r = s \<and> length s = n"
  by auto

lemma in_ms_dot: "r \<in> set (ms n (Chr CHR ''.'') s) \<longleftrightarrow> s = 46 # r"
  by (cases s) auto

lemma in_ms_octet: "r \<in> set (ms n octet s) \<longleftrightarrow> (\<exists>a. octet_text a \<and> s = a @ r)"
proof
  assume "r \<in> set (ms n octet s)"
  then consider x where "s = x # r" "is_digit x"
    | x y where "s = x # y # r" "is_digit x" "is_digit y"
    | x y z where "s = x # y # z # r" "is_digit x" "is_digit y" "is_digit z"
        "x \<le> 49 \<or> (x = 50 \<and> y \<le> 52) \<or> (x = 50 \<and> y = 53 \<and> z \<le> 53)"
    unfolding ms_octet by blast
  then show "\<exists>a. octet_text a \<and> s = a @ r"
  proof cases
    case 1
    then have "octet_text [x]" by (simp add: octet_text_shapes)
    with 1 show ?thesis by (intro exI [of _ "[x]"]) simp
  next
    case 2
    then have "octet_text [x, y]" by (simp add: octet_text_shapes)
    with 2 show ?thesis by (intro exI [of _ "[x, y]"]) simp
  next
    case 3
    then have "octet_text [x, y, z]" by (simp add: octet_text_shapes)
    with 3 show ?thesis by (intro exI [of _ "[x, y, z]"]) simp
  qed
next
  assume "\<exists>a. octet_text a \<and> s = a @ r"
  then obtain a where a: "octet_text a" and s: "s = a @ r" by blast
  from a show "r \<in> set (ms n octet s)"
    unfolding octet_text_shapes ms_octet s by auto
qed

lemma in_ms_dot_octet:
  "r \<in> set (ms n (Seq (Chr CHR ''.'') octet) s) \<longleftrightarrow> (\<exists>a. octet_text a \<and> s = 46 # a @ r)"
  unfolding in_ms_Seq in_ms_dot in_ms_octet by auto

lemma repeated_3: "repeated 3 r = Seq r (Seq r (Seq r Eps))"
  by (simp add: eval_nat_numeral)

lemma in_ms_tail1:
  "r \<in> set (ms n (Seq (Seq (Chr CHR ''.'') octet) Eps) s) \<longleftrightarrow>
     (\<exists>d. octet_text d \<and> s = 46 # d @ r)"
  unfolding in_ms_Seq [of r n "Seq (Chr CHR ''.'') octet"] in_ms_Eps in_ms_dot_octet
  by blast

lemma in_ms_tail2:
  "r \<in> set (ms n (Seq (Seq (Chr CHR ''.'') octet) (Seq (Seq (Chr CHR ''.'') octet) Eps)) s) \<longleftrightarrow>
     (\<exists>c d. octet_text c \<and> octet_text d \<and> s = 46 # c @ 46 # d @ r)"
  unfolding in_ms_Seq [of r n "Seq (Chr CHR ''.'') octet"] in_ms_tail1 in_ms_dot_octet
  by blast

lemma in_ms_tail3:
  "r \<in> set (ms n (repeated 3 (Seq (Chr CHR ''.'') octet)) s) \<longleftrightarrow>
     (\<exists>b c d. octet_text b \<and> octet_text c \<and> octet_text d \<and>
        s = 46 # b @ 46 # c @ 46 # d @ r)"
  unfolding repeated_3 in_ms_Seq [of r n "Seq (Chr CHR ''.'') octet"] in_ms_tail2 in_ms_dot_octet
  by blast

lemma in_ms_tail_eol:
  "r \<in> set (ms n (Seq (repeated 3 (Seq (Chr CHR ''.'') octet)) Eol) s) \<longleftrightarrow>
     (r = [] \<or> r = [10]) \<and>
     (\<exists>b c d. octet_text b \<and> octet_text c \<and> octet_text d \<and>
        s = 46 # b @ 46 # c @ 46 # d @ r)"
  unfolding in_ms_Seq [of r n "repeated 3 (Seq (Chr CHR ''.'') octet)"] in_ms_tail3 in_ms_Eol
  by blast

lemma in_ms_quad:
  "r \<in> set (ms n (Seq octet (Seq (repeated 3 (Seq (Chr CHR ''.'') octet)) Eol)) s) \<longleftrightarrow>
     (r = [] \<or> r = [10]) \<and>
     (\<exists>a b c d. octet_text a \<and> octet_text b \<and> octet_text c \<and> octet_text d \<and>
        s = a @ 46 # b @ 46 # c @ 46 # d @ r)"
  unfolding in_ms_Seq [of r n octet] in_ms_tail_eol in_ms_octet
  by blast

lemma in_ms_IPV4:
  "r \<in> set (ms (length s) IPV4_RE s) \<longleftrightarrow>
     (r = [] \<or> r = [10]) \<and>
     (\<exists>a b c d. octet_text a \<and> octet_text b \<and> octet_text c \<and> octet_text d \<and>
        s = a @ 46 # b @ 46 # c @ 46 # d @ r)"
  unfolding IPV4_RE_def in_ms_Seq [of r "length s" Bol] in_ms_Bol in_ms_quad
  by blast

lemma re_match_IPV4:
  "re_match IPV4_RE s \<longleftrightarrow> dotted_quad s \<or> (\<exists>t. s = t @ [10] \<and> dotted_quad t)"
proof -
  have "re_match IPV4_RE s \<longleftrightarrow> (\<exists>r. r \<in> set (ms (length s) IPV4_RE s))"
    unfolding re_match_def by (cases "ms (length s) IPV4_RE s") auto
  also have "\<dots> \<longleftrightarrow> dotted_quad s \<or> (\<exists>t. s = t @ [10] \<and> dotted_quad t)"
  proof
    assume "\<exists>r. r \<in> set (ms (length s) IPV4_RE s)"
    then obtain r a b c d where r: "r = [] \<or> r = [10]"
      and o: "octet_text a" "octet_text b" "octet_text c" "octet_text d"
      and s: "s = a @ 46 # b @ 46 # c @ 46 # d @ r"
      unfolding in_ms_IPV4 by blast
    from r show "dotted_quad s \<or> (\<exists>t. s = t @ [10] \<and> dotted_quad t)"
    proof
      assume "r = []"
      with o s have "dotted_quad s" unfolding dotted_quad_def by auto
      then show ?thesis ..
    next
      assume "r = [10]"
      with s have "s = (a @ 46 # b @ 46 # c @ 46 # d) @ [10]" by simp
      moreover have "dotted_quad (a @ 46 # b @ 46 # c @ 46 # d)"
        using o unfolding dotted_quad_def by blast
      ultimately show ?thesis by blast
    qed
  next
    assume "dotted_quad s \<or> (\<exists>t. s = t @ [10] \<and> dotted_quad t)"
    then show "\<exists>r. r \<in> set (ms (length s) IPV4_RE s)"
    proof
      assume "dotted_quad s"
      then obtain a b c d where o: "octet_text a" "octet_text b" "octet_text c" "octet_text d"
        and s: "s = a @ 46 # b @ 46 # c @ 46 # d @ []"
        unfolding dotted_quad_def by auto
      then have "[] \<in> set (ms (length s) IPV4_RE s)"
        unfolding in_ms_IPV4 by blast
      then show ?thesis ..
    next
      assume "\<exists>t. s = t @ [10] \<and> dotted_quad t"
      then obtain a b c d where o: "octet_text a" "octet_text b" "octet_text c" "octet_text d"
        and s: "s = a @ 46 # b @ 46 # c @ 46 # d @ [10]"
        unfolding dotted_quad_def by auto
      then have "[10] \<in> set (ms (length s) IPV4_RE s)"
        unfolding in_ms_IPV4 by blast
      then show ?thesis ..
    qed
  qed
  finally show ?thesis .
qed


lemma validate_str:
  "PublicIPAddress_validate (Str s) =
     (if dotted_quad (ustr s) \<or> (\<exists>t. ustr s = t @ [10] \<and> dotted_quad t) then Inr True
      else Inl (IPAddressException (''Incorrect ip v4 address '' @ s)))"
  by (simp add: PublicIPAddress_validate_def re_match_IPV4 str_arg_def bind_err_def)

lemma validate_unicode:
  "PublicIPAddress_validate (Unicode cs) =
     (if dotted_quad cs \<or> (\<exists>t. cs = t @ [10] \<and> dotted_quad t) then Inr True
      else if list_all (\<lambda>c. c < 128) cs
        then Inl (IPAddressException (''Incorrect ip v4 address '' @ map char_of cs))
      else Inl UnicodeEncodeError)"
  by (simp add: PublicIPAddress_validate_def re_match_IPV4 str_arg_def bind_err_def)

text \<open>
  C4. The text \<open>1.2.3.4\<close> followed by a newline is not a dotted quad, and
  \<open>validate\<close> returns \<open>True\<close> for it instead of raising: \<open>$\<close> also matches before a
  newline that ends the text. The two examples of the specification behave as it
  says.
\<close>

theorem validate_accepts_trailing_newline:
  "PublicIPAddress_validate (Str (''1.2.3.4'' @ [CHR 0x0A])) = Inr True \<and>
   PublicIPAddress_validate (Str ''192.168.1.1'') = Inr True \<and>
   PublicIPAddress_validate (Str ''256.1.1.1'') =
     Inl (IPAddressException ''Incorrect ip v4 address 256.1.1.1'')"
proof -
  have a: "PublicIPAddress_validate (Str (''1.2.3.4'' @ [CHR 0x0A])) = Inr True"
    by code_simp
  have b: "PublicIPAddress_validate (Str ''192.168.1.1'') = Inr True"
    by code_simp
  have c: "PublicIPAddress_validate (Str ''256.1.1.1'') =
     Inl (IPAddressException ''Incorrect ip v4 address 256.1.1.1'')"
    by code_simp
  from a b c show ?thesis by blast
qed

end
